theory Spec2Isabelle
  imports Complex_Main "HOL-Library.Word"
begin

unbundle bit_operations_syntax

section \<open>The GPIO port and the wall clock\<close>

text \<open>
  The driver in \<^verbatim>\<open>scale.py\<close> talks to the HX711 through \<^verbatim>\<open>GPIO.output\<close>,
  \<^verbatim>\<open>GPIO.input\<close>, \<^verbatim>\<open>time.time\<close> and \<^verbatim>\<open>time.sleep\<close>. The world it runs in
  is modelled explicitly:
  \<^item> \<open>dout_levels\<close> gives the level that the k-th call of \<^verbatim>\<open>GPIO.input\<close> returns
    (\<open>True\<close> is HIGH, 1); it is arbitrary, so every behaviour of the device is covered;
  \<^item> \<open>reads\<close> counts the calls of \<^verbatim>\<open>GPIO.input\<close> made so far;
  \<^item> \<open>clock\<close> is \<^verbatim>\<open>time.time()\<close> in milliseconds; \<^verbatim>\<open>time.sleep(d)\<close> advances it by
    \<open>d\<close> and nothing else takes time;
  \<^item> \<open>trace\<close> records every pin access in order.
  Console output (\<^verbatim>\<open>print\<close>) and the prompt of \<^verbatim>\<open>calibrate\<close> are not modelled.
  Python's floats are modelled as reals.
\<close>

datatype event = Output nat bool | Input nat bool

record world =
  dout_levels :: "nat \<Rightarrow> bool"
  reads :: nat
  clock :: int
  trace :: "event list"

definition DOUT_PIN :: nat where
  "DOUT_PIN = 5"

definition SCK_PIN :: nat where
  "SCK_PIN = 6"

definition gpio_output :: "nat \<Rightarrow> bool \<Rightarrow> world \<Rightarrow> world" where
  "gpio_output pin level w = w\<lparr>trace := trace w @ [Output pin level]\<rparr>"

definition gpio_input :: "nat \<Rightarrow> world \<Rightarrow> bool \<times> world" where
  "gpio_input pin w =
     (let level = dout_levels w (reads w)
      in (level, w\<lparr>reads := reads w + 1, trace := trace w @ [Input pin level]\<rparr>))"

definition time_sleep :: "int \<Rightarrow> world \<Rightarrow> world" where
  "time_sleep ms w = w\<lparr>clock := clock w + ms\<rparr>"

section \<open>Bit-level transport (\<^verbatim>\<open>scale.py\<close>)\<close>

text \<open>\<^verbatim>\<open>is_ready\<close>: \<^verbatim>\<open>return GPIO.input(DOUT_PIN) == 0\<close>.\<close>

definition is_ready :: "world \<Rightarrow> bool \<times> world" where
  "is_ready w = (let (level, w1) = gpio_input DOUT_PIN w in (level = False, w1))"

text \<open>
  The loop of \<^verbatim>\<open>wait_ready\<close>; \<open>start\<close> is the clock value taken before the loop.
  \<^verbatim>\<open>
  while not is_ready():
      if time.time() - start > timeout:
          return False
      time.sleep(0.001)
  return True
  \<close>
\<close>

function wait_loop :: "int \<Rightarrow> int \<Rightarrow> world \<Rightarrow> bool \<times> world" where
  "wait_loop start timeout w =
     (if \<not> fst (is_ready w) then
        (if clock (snd (is_ready w)) - start > timeout then (False, snd (is_ready w))
         else wait_loop start timeout (time_sleep 1 (snd (is_ready w))))
      else (True, snd (is_ready w)))"
  by pat_completeness auto
termination
  by (relation "measure (\<lambda>(start, timeout, w). nat (start + timeout + 1 - clock w))")
     (auto simp: is_ready_def gpio_input_def time_sleep_def Let_def)

definition wait_ready :: "int \<Rightarrow> world \<Rightarrow> bool \<times> world" where
  "wait_ready timeout w = wait_loop (clock w) timeout w"

text \<open>
  Lines 72 to 74 of \<^verbatim>\<open>read_raw\<close>, the conversion from 24-bit two's complement:
  \<^verbatim>\<open>
  if raw_value & 0x800000:
      raw_value -= 0x1000000
  \<close>
\<close>

definition twos_complement24 :: "int \<Rightarrow> int" where
  "twos_complement24 raw_value =
     (if raw_value AND 0x800000 \<noteq> 0 then raw_value - 0x1000000 else raw_value)"

text \<open>
  The data-bit loop of \<^verbatim>\<open>read_raw\<close>, \<open>n\<close> iterations left:
  \<^verbatim>\<open>
  for _ in range(24):
      GPIO.output(SCK_PIN, 1)
      GPIO.output(SCK_PIN, 0)
      raw_value = (raw_value << 1) | GPIO.input(DOUT_PIN)
  \<close>
\<close>

fun read_bits :: "nat \<Rightarrow> int \<Rightarrow> world \<Rightarrow> int \<times> world" where
  "read_bits 0 raw_value w = (raw_value, w)"
| "read_bits (Suc n) raw_value w =
     (let w1 = gpio_output SCK_PIN True w;
          w2 = gpio_output SCK_PIN False w1;
          (level, w3) = gpio_input DOUT_PIN w2
      in read_bits n (push_bit 1 raw_value OR of_bool level) w3)"

text \<open>\<^verbatim>\<open>read_raw\<close>; \<^verbatim>\<open>wait_ready()\<close> is called with its default timeout of 2.0 seconds.\<close>

definition read_raw :: "world \<Rightarrow> int option \<times> world" where
  "read_raw w =
     (let (ready, w1) = wait_ready 2000 w
      in if \<not> ready then (None, w1)
         else
           (let (raw_value, w2) = read_bits 24 0 w1;
                w3 = gpio_output SCK_PIN True w2;
                w4 = gpio_output SCK_PIN False w3
            in (Some (twos_complement24 raw_value), w4)))"

section \<open>Sampling and calibration (\<^verbatim>\<open>scale.py\<close>)\<close>

text \<open>
  The loop of \<^verbatim>\<open>read_average\<close>, \<open>n\<close> iterations left:
  \<^verbatim>\<open>
  for _ in range(times):
      val = read_raw()
      if val is not None:
          values.append(val)
      time.sleep(0.01)
  \<close>
\<close>

fun read_values :: "nat \<Rightarrow> int list \<Rightarrow> world \<Rightarrow> int list \<times> world" where
  "read_values 0 values w = (values, w)"
| "read_values (Suc n) values w =
     (let (val, w1) = read_raw w;
          values1 = (case val of Some v \<Rightarrow> values @ [v] | None \<Rightarrow> values);
          w2 = time_sleep 10 w1
      in read_values n values1 w2)"

text \<open>\<^verbatim>\<open>sum(values) / len(values)\<close>, Python's true division of two integers.\<close>

definition mean :: "int list \<Rightarrow> real" where
  "mean values = real_of_int (sum_list values) / real (length values)"

text \<open>\<^verbatim>\<open>read_average\<close>; \<^verbatim>\<open>range(times)\<close> is empty when \<open>times\<close> is not positive.\<close>

definition read_average :: "int \<Rightarrow> world \<Rightarrow> real option \<times> world" where
  "read_average count w =
     (let (values, w1) = read_values (nat count) [] w
      in if values \<noteq> [] then (Some (mean values), w1) else (None, w1))"

text \<open>The module-level calibration variables, \<^verbatim>\<open>OFFSET = 0\<close> and \<^verbatim>\<open>SCALE = 1\<close> at start.\<close>

record calibration =
  OFFSET :: real
  SCALE :: real

definition initial_calibration :: calibration where
  "initial_calibration = \<lparr>OFFSET = 0, SCALE = 1\<rparr>"

datatype py_error = ZeroDivisionError

text \<open>\<^verbatim>\<open>tare\<close>: the returned triple is the result, the calibration after the call and the world.\<close>

definition tare :: "int \<Rightarrow> calibration \<Rightarrow> world \<Rightarrow> bool \<times> calibration \<times> world" where
  "tare count c w =
     (let (avg, w1) = read_average count w
      in case avg of
           Some a \<Rightarrow> (True, c\<lparr>OFFSET := a\<rparr>, w1)
         | None \<Rightarrow> (False, c, w1))"

text \<open>
  \<^verbatim>\<open>calibrate\<close>. The division \<^verbatim>\<open>(avg - OFFSET) / known_weight_grams\<close> raises
  \<^verbatim>\<open>ZeroDivisionError\<close> on a zero divisor, before \<^verbatim>\<open>SCALE\<close> is assigned.
\<close>

definition calibrate ::
  "real \<Rightarrow> int \<Rightarrow> calibration \<Rightarrow> world \<Rightarrow> (py_error + bool) \<times> calibration \<times> world" where
  "calibrate known_weight_grams count c w =
     (let (avg, w1) = read_average count w
      in case avg of
           Some a \<Rightarrow>
             (if known_weight_grams = 0 then (Inl ZeroDivisionError, c, w1)
              else (Inr True, c\<lparr>SCALE := (a - OFFSET c) / known_weight_grams\<rparr>, w1))
         | None \<Rightarrow> (Inr False, c, w1))"

text \<open>
  The expression \<^verbatim>\<open>(raw - OFFSET) / SCALE\<close> of \<^verbatim>\<open>get_weight\<close> and
  \<^verbatim>\<open>get_weight_average\<close>; it raises \<^verbatim>\<open>ZeroDivisionError\<close> when \<^verbatim>\<open>SCALE\<close> is 0.
\<close>

definition to_weight :: "calibration \<Rightarrow> real \<Rightarrow> py_error + real" where
  "to_weight c raw =
     (if SCALE c = 0 then Inl ZeroDivisionError else Inr ((raw - OFFSET c) / SCALE c))"

definition get_weight :: "calibration \<Rightarrow> world \<Rightarrow> (py_error + real option) \<times> world" where
  "get_weight c w =
     (let (raw, w1) = read_raw w
      in case raw of
           Some r \<Rightarrow>
             (case to_weight c (real_of_int r) of
                Inl e \<Rightarrow> (Inl e, w1)
              | Inr g \<Rightarrow> (Inr (Some g), w1))
         | None \<Rightarrow> (Inr None, w1))"

definition get_weight_average ::
  "int \<Rightarrow> calibration \<Rightarrow> world \<Rightarrow> (py_error + real option) \<times> world" where
  "get_weight_average count c w =
     (let (avg, w1) = read_average count w
      in case avg of
           Some a \<Rightarrow>
             (case to_weight c a of
                Inl e \<Rightarrow> (Inl e, w1)
              | Inr g \<Rightarrow> (Inr (Some g), w1))
         | None \<Rightarrow> (Inr None, w1))"

section \<open>Diagnostics (\<^verbatim>\<open>test_raw_gpio.py\<close>, \<^verbatim>\<open>test_scale.py\<close>)\<close>

text \<open>The fault classes named in the specification's data model.\<close>

datatype FaultClass =
  Timeout | AllOnes | AllZeros | SaturatedMiddleByte | SuspiciousPowerOfTwoPattern | Nominal

text \<open>
  The verdict chain at the end of \<^verbatim>\<open>test_pins\<close> in \<^verbatim>\<open>test_raw_gpio.py\<close>, the only place
  of the repository that classifies one magnitude into more than two classes:
  \<^verbatim>\<open>
  byte2 = (raw_value >> 8) & 0xFF
  if raw_value == 0xFFFFFF:    "All bits are 1"
  elif raw_value == 0x000000:  "All bits are 0"
  elif byte2 == 0xFF:          "Middle byte is 0xFF"
  else:                        "Got varied bits - HX711 is communicating!"
  \<close>
\<close>

definition test_pins_verdict :: "int \<Rightarrow> FaultClass" where
  "test_pins_verdict raw_value =
     (let byte2 = drop_bit 8 raw_value AND 0xFF
      in if raw_value = 0xFFFFFF then AllOnes
         else if raw_value = 0x000000 then AllZeros
         else if byte2 = 0xFF then SaturatedMiddleByte
         else Nominal)"

text \<open>
  The test for values of the form \<open>2^n - 1\<close> in \<^verbatim>\<open>test_stability\<close> of \<^verbatim>\<open>test_scale.py\<close>:
  \<^verbatim>\<open>r > 0 and (r & (r + 1)) == 0\<close>. It is applied to every reading of a collected list
  and counted, apart from any other classification.
\<close>

definition suspicious :: "int \<Rightarrow> bool" where
  "suspicious r = (r > 0 \<and> (r AND (r + 1)) = 0)"

definition suspicious_count :: "int list \<Rightarrow> nat" where
  "suspicious_count readings = length (filter suspicious readings)"

text \<open>Python's \<^verbatim>\<open>min\<close> and \<^verbatim>\<open>max\<close> of a list; they raise \<^verbatim>\<open>ValueError\<close> on an empty one.\<close>

fun py_min :: "int list \<Rightarrow> int option" where
  "py_min [] = None"
| "py_min (x # xs) = Some (fold min xs x)"

fun py_max :: "int list \<Rightarrow> int option" where
  "py_max [] = None"
| "py_max (x # xs) = Some (fold max xs x)"

text \<open>
  The statistics block of \<^verbatim>\<open>test_stability\<close> in \<^verbatim>\<open>test_scale.py\<close>; the function
  prints the four values and returns \<^verbatim>\<open>avg\<close>, or \<^verbatim>\<open>None\<close> for an empty list:
  \<^verbatim>\<open>
  if readings:
      avg = sum(readings) / len(readings)
      min_val = min(readings)
      max_val = max(readings)
      variance = max_val - min_val
  \<close>
\<close>

record statistics =
  avg :: real
  min_val :: int
  max_val :: int
  variance :: int

definition stability_statistics :: "int list \<Rightarrow> statistics option" where
  "stability_statistics readings =
     (if readings \<noteq> [] then
        (let a = mean readings;
             lo = the (py_min readings);
             hi = the (py_max readings)
         in Some \<lparr>avg = a, min_val = lo, max_val = hi, variance = hi - lo\<rparr>)
      else None)"

section \<open>Definitions that follow the specification's words\<close>

text \<open>
  The encoding of a signed value as its 24-bit two's-complement magnitude. The program only
  decodes; the encoding is the one the specification's round-trip property refers to.
\<close>

definition encode24 :: "int \<Rightarrow> int" where
  "encode24 s = s mod 0x1000000"

text \<open>The value of 24 levels sampled most significant bit first: the sum of \<open>bit_i * 2^(23-i)\<close>.\<close>

definition msb_first_value :: "bool list \<Rightarrow> int" where
  "msb_first_value bits = (\<Sum>i < length bits. of_bool (bits ! i) * 2 ^ (length bits - 1 - i))"

text \<open>
  The results of \<open>n\<close> successive transport reads, each followed by the pause of 10 ms that
  \<^verbatim>\<open>read_average\<close> makes between reads.
\<close>

fun transport_reads :: "nat \<Rightarrow> world \<Rightarrow> int option list" where
  "transport_reads 0 w = []"
| "transport_reads (Suc n) w =
     fst (read_raw w) # transport_reads n (time_sleep 10 (snd (read_raw w)))"

text \<open>The values that remain after the reads that timed out are discarded.\<close>

definition valid_samples :: "int option list \<Rightarrow> int list" where
  "valid_samples results = concat (map (\<lambda>r. case r of Some v \<Rightarrow> [v] | None \<Rightarrow> []) results)"

text \<open>The levels that the next \<open>n\<close> calls of \<^verbatim>\<open>GPIO.input\<close> will return.\<close>

definition next_levels :: "nat \<Rightarrow> world \<Rightarrow> bool list" where
  "next_levels n w = map (\<lambda>i. dout_levels w (reads w + i)) [0..<n]"

text \<open>One data-bit cycle on the wires: clock HIGH, clock LOW, one sample of the data line.\<close>

definition data_cycle :: "bool \<Rightarrow> event list" where
  "data_cycle level = [Output SCK_PIN True, Output SCK_PIN False, Input DOUT_PIN level]"

text \<open>The levels written to the clock line, and the levels sampled from the data line.\<close>

fun clock_writes :: "event list \<Rightarrow> bool list" where
  "clock_writes [] = []"
| "clock_writes (Output pin level # es) =
     (if pin = SCK_PIN then level # clock_writes es else clock_writes es)"
| "clock_writes (Input pin level # es) = clock_writes es"

fun data_samples :: "event list \<Rightarrow> bool list" where
  "data_samples [] = []"
| "data_samples (Input pin level # es) =
     (if pin = DOUT_PIN then level # data_samples es else data_samples es)"
| "data_samples (Output pin level # es) = data_samples es"

text \<open>
  A device for concrete runs: it answers one read per value of \<open>vals\<close>, each as a frame of 25
  levels (LOW for ready, then the 24 bits of the value, most significant first), and after the
  last frame it keeps the data line HIGH, so that every later read times out.
\<close>

definition replay_device :: "int list \<Rightarrow> nat \<Rightarrow> bool" where
  "replay_device vals k =
     (if k < 25 * length vals
      then k mod 25 \<noteq> 0 \<and> bit (vals ! (k div 25)) (24 - k mod 25)
      else True)"

definition replay_world :: "int list \<Rightarrow> world" where
  "replay_world vals = \<lparr>dout_levels = replay_device vals, reads = 0, clock = 0, trace = []\<rparr>"

section \<open>Two's-complement decoding\<close>

lemma sign_mask_iff_bit: "(m AND 0x800000 \<noteq> 0) = bit (m::int) 23"
  using and_exp_eq_0_iff_not_bit[of m 23] by simp

lemma bit23_iff:
  assumes "0 \<le> m" and "m \<le> 0xFFFFFF"
  shows "bit (m::int) 23 = (0x800000 \<le> m)"
proof -
  have "bit m 23 = odd (m div 2 ^ 23)" by (simp add: bit_iff_odd)
  moreover have "m < 0x800000 \<Longrightarrow> m div 2 ^ 23 = 0" using assms by simp
  moreover have "0x800000 \<le> m \<Longrightarrow> m div 2 ^ 23 = 1" using assms by simp
  ultimately show ?thesis by (cases "m < 0x800000") auto
qed

lemma twos_complement24_range:
  assumes "0 \<le> m" and "m \<le> 0xFFFFFF"
  shows "twos_complement24 m = (if 0x800000 \<le> m then m - 0x1000000 else m)"
  using assms by (simp add: twos_complement24_def sign_mask_iff_bit bit23_iff)

lemma twos_complement24_sint:
  assumes "0 \<le> m" and "m \<le> 0xFFFFFF"
  shows "twos_complement24 m = sint (word_of_int m :: 24 word)"
proof -
  have u: "uint (word_of_int m :: 24 word) = m"
    using assms by (simp add: uint_word_of_int take_bit_eq_mod)
  have s: "sint (word_of_int m :: 24 word) = signed_take_bit 23 m"
    using u by (simp add: sint_uint)
  show ?thesis
  proof (cases "0x800000 \<le> m")
    case True
    then have "(m + 8388608) mod 16777216 = m + 8388608 - 16777216"
      using assms by (intro int_mod_pos_eq [where q = 1]) simp_all
    with True show ?thesis
      using assms
      by (simp add: twos_complement24_range s signed_take_bit_eq_take_bit_shift take_bit_eq_mod)
  next
    case False
    then have "(m + 8388608) mod 16777216 = m + 8388608"
      using assms by simp
    with False show ?thesis
      using assms
      by (simp add: twos_complement24_range s signed_take_bit_eq_take_bit_shift take_bit_eq_mod)
  qed
qed

text \<open>
  C1. For every 24-bit magnitude \<open>m\<close> the decoder of \<^verbatim>\<open>read_raw\<close> returns \<open>m - 0x1000000\<close>
  when bit 23 of \<open>m\<close> is set and \<open>m\<close> otherwise; magnitude \<open>0x000000\<close> decodes to 0,
  \<open>0xFFFFFF\<close> to -1, \<open>0x800000\<close> to -8388608 and \<open>0x7FFFFF\<close> to 8388607.
\<close>

theorem twos_complement24_decodes:
  assumes "0 \<le> m" and "m \<le> 0xFFFFFF"
  shows "twos_complement24 m = (if bit m 23 then m - 0x1000000 else m)
       \<and> twos_complement24 0x000000 = 0
       \<and> twos_complement24 0xFFFFFF = - 1
       \<and> twos_complement24 0x800000 = - 8388608
       \<and> twos_complement24 0x7FFFFF = 8388607"
proof -
  have "twos_complement24 m = (if bit m 23 then m - 0x1000000 else m)"
    by (simp add: twos_complement24_def sign_mask_iff_bit)
  moreover have "twos_complement24 0x000000 = 0"
    by (simp add: twos_complement24_def)
  moreover have "twos_complement24 0xFFFFFF = - 1"
    by (simp add: twos_complement24_def)
  moreover have "twos_complement24 0x800000 = - 8388608"
    by (simp add: twos_complement24_def)
  moreover have "twos_complement24 0x7FFFFF = 8388607"
    by (simp add: twos_complement24_def)
  ultimately show ?thesis by blast
qed

theorem twos_complement24_decodes_witness:
  "(0::int) \<le> 0xABCDEF \<and> (0xABCDEF::int) \<le> 0xFFFFFF
   \<and> bit (0xABCDEF::int) 23
   \<and> twos_complement24 0xABCDEF = - 5517841"
proof -
  have b: "bit (0xABCDEF::int) 23"
    using bit23_iff [of "0xABCDEF"] by simp
  have "twos_complement24 0xABCDEF = (if bit (0xABCDEF::int) 23 then 0xABCDEF - 0x1000000 else 0xABCDEF)"
    using twos_complement24_decodes [of "0xABCDEF"] by simp
  with b show ?thesis by simp
qed

text \<open>
  C7. Decoding is the inverse of encoding: for every signed value \<open>s\<close> in the range
  from -8388608 to 8388607, mapping \<open>s\<close> to its 24-bit two's-complement magnitude and
  decoding that magnitude yields \<open>s\<close> again.
\<close>

theorem decode_encode:
  assumes "- 8388608 \<le> s" and "s \<le> 8388607"
  shows "twos_complement24 (encode24 s) = s"
proof (cases "s < 0")
  case True
  then have e: "encode24 s = s + 0x1000000"
    using assms unfolding encode24_def
    by (intro int_mod_pos_eq [where q = "- 1"]) simp_all
  show ?thesis
    using assms True by (simp add: e twos_complement24_range)
next
  case False
  then have e: "encode24 s = s"
    using assms unfolding encode24_def by simp
  show ?thesis
    using assms False by (simp add: e twos_complement24_range)
qed

theorem decode_encode_witness:
  "(- 8388608::int) \<le> - 5 \<and> (- 5::int) \<le> 8388607
   \<and> encode24 (- 5) = 0xFFFFFB \<and> twos_complement24 (encode24 (- 5)) = - 5"
proof -
  have "twos_complement24 (encode24 (- 5)) = - 5"
    using decode_encode [of "- 5"] by simp
  then show ?thesis by (simp add: encode24_def)
qed

end
